theory Spec2Isabelle
  imports Main "HOL-Library.Sublist"
begin

section \<open>Data model of \<open>src/twitter/utils/imageUtils.ts\<close>\<close>

text \<open>
  Strings are byte strings (UTF-8).  JavaScript exceptions are values of type \<open>exn\<close>;
  a computation that may throw returns \<open>exn + 'a\<close> with \<open>Inl\<close> the exception.
\<close>

datatype exn = RangeError | FetchError

text \<open>A JavaScript \<open>Date\<close>: a time value in milliseconds, or the Invalid Date.\<close>

datatype date = Date int | Invalid_Date

text \<open>
  The \<open>Tweet\<close> of the platform client, restricted to the fields the module reads.  Every
  field the code guards with \<open>||\<close>, \<open>?.\<close> or \<open>!\<close> is optional (\<open>None\<close> is \<open>undefined\<close>).
  A photo is represented by its \<open>url\<close>, the only field read.
\<close>

record tweet =
  t_id :: "string option"
  t_username :: "string option"
  t_text :: "string option"
  t_timeParsed :: "date option"
  t_inReplyToStatusId :: "string option"
  t_quotedStatusId :: "string option"
  t_photos :: "string list option"

text \<open>The interface \<open>QuoteContext\<close>.\<close>

record quote =
  q_sender :: string
  q_text :: string
  q_timestamp :: string
  q_photos :: "string list"

text \<open>
  An element of the array returned by \<open>getConversationThread\<close> (and of the history
  array).  \<open>m_isFocusTweet\<close> is \<open>False\<close> where the property is absent.
\<close>

record message =
  m_sender :: string
  m_tweet_id :: "string option"
  m_text :: string
  m_timestamp :: string
  m_photos :: "string list"
  m_quoteContext :: "quote option"
  m_isFocusTweet :: bool

text \<open>The response of \<open>axios.get\<close>: the \<open>content-type\<close> header and the body.\<close>

record response =
  r_content_type :: "string option"
  r_data :: string

text \<open>
  The collaborators of the module, none of which is defined in it: the platform client
  \<open>scraper.getTweet\<close> (resolves to a tweet or to \<open>null\<close>, or rejects), the persistence
  query \<open>getConversationWithUser\<close>, \<open>axios.get\<close>, the helper \<open>formatTimestamp\<close>, the
  environment variable \<open>TWITTER_USERNAME\<close>, and the builtins \<open>Date.prototype.toISOString\<close>
  on a valid time value and base64 encoding of a buffer.
\<close>

record env =
  getTweet :: "string \<Rightarrow> exn + tweet option"
  getConversationWithUser :: "string \<Rightarrow> exn + message list"
  axios_get :: "string \<Rightarrow> exn + response"
  formatTimestamp :: "string \<Rightarrow> string"
  TWITTER_USERNAME :: "string option"
  isoString :: "int \<Rightarrow> string"
  base64 :: "string \<Rightarrow> string"

section \<open>JavaScript helpers\<close>

text \<open>A string is truthy when it is defined and not empty.\<close>

definition truthy :: "string option \<Rightarrow> bool" where
  "truthy s = (case s of None \<Rightarrow> False | Some v \<Rightarrow> v \<noteq> [])"

text \<open>\<open>s || d\<close> on an optional string.\<close>

definition or_default :: "string option \<Rightarrow> string \<Rightarrow> string" where
  "or_default s d = (case s of None \<Rightarrow> d | Some v \<Rightarrow> if v = [] then d else v)"

text \<open>\<open>photos?.map(photo => photo.url) || []\<close>.\<close>

definition photo_urls :: "string list option \<Rightarrow> string list" where
  "photo_urls ps = (case ps of None \<Rightarrow> [] | Some us \<Rightarrow> us)"

text \<open>
  \<open>new Date(d!).toISOString()\<close>: \<open>undefined\<close> and the Invalid Date both give an invalid
  date, on which \<open>toISOString\<close> throws a \<open>RangeError\<close>.
\<close>

definition toISOString :: "env \<Rightarrow> date option \<Rightarrow> exn + string" where
  "toISOString e d =
     (case d of
        None \<Rightarrow> Inl RangeError
      | Some Invalid_Date \<Rightarrow> Inl RangeError
      | Some (Date ms) \<Rightarrow> Inr (isoString e ms))"

text \<open>
  \<open>toLowerCase\<close> on the ASCII letters.  The code only compares the result with
  \<open>'agent'\<close>, and no character outside ASCII lower-cases to one of its letters.
\<close>

definition lower_char :: "char \<Rightarrow> char" where
  "lower_char c =
     (let n = (of_char c :: nat) in if 65 \<le> n \<and> n \<le> 90 then char_of (n + 32) else c)"

definition toLowerCase :: "string \<Rightarrow> string" where
  "toLowerCase s = map lower_char s"

text \<open>The decimal rendering of a length inside a template literal.\<close>

definition digit :: "nat \<Rightarrow> char" where
  "digit d = char_of (48 + d)"

fun show_nat :: "nat \<Rightarrow> string" where
  "show_nat n = (if n < 10 then [digit n] else show_nat (n div 10) @ [digit (n mod 10)])"

declare show_nat.simps [simp del]

text \<open>\<open>Array.prototype.join\<close>.\<close>

fun join :: "string \<Rightarrow> string list \<Rightarrow> string" where
  "join sep [] = []"
| "join sep [x] = x"
| "join sep (x # y # ys) = x @ sep @ join sep (y # ys)"

text \<open>
  \<open>Promise.all(xs.map(f))\<close>: the results by position, or a rejection when one call
  rejects.
\<close>

fun promise_all :: "('a \<Rightarrow> exn + 'b) \<Rightarrow> 'a list \<Rightarrow> exn + 'b list" where
  "promise_all f [] = Inr []"
| "promise_all f (x # xs) =
     (case f x of
        Inl e \<Rightarrow> Inl e
      | Inr y \<Rightarrow> (case promise_all f xs of Inl e \<Rightarrow> Inl e | Inr ys \<Rightarrow> Inr (y # ys)))"

section \<open>\<open>getImageAsBase64\<close>\<close>

record image_data =
  media_type :: string
  data :: string

definition getImageAsBase64 :: "env \<Rightarrow> string \<Rightarrow> image_data option" where
  "getImageAsBase64 e imageUrl =
     (case axios_get e imageUrl of
        Inl err \<Rightarrow> None
      | Inr resp \<Rightarrow>
          Some \<lparr>media_type = or_default (r_content_type resp) ''image/jpeg'',
                data = base64 e (r_data resp)\<rparr>)"

section \<open>\<open>getConversationThread\<close>\<close>

text \<open>
  The \<open>while\<close> loop that walks up the reply chain.  \<open>parentTweets.unshift\<close> puts the
  parent in front.  The loop has no bound: on cyclic data it does not return, which is
  the value \<open>None\<close>.
\<close>

partial_function (option) walk_parents ::
  "env \<Rightarrow> tweet \<Rightarrow> tweet list \<Rightarrow> (exn + tweet list) option" where
  "walk_parents e currentTweet parentTweets =
     (case t_inReplyToStatusId currentTweet of
        None \<Rightarrow> Some (Inr parentTweets)
      | Some pid \<Rightarrow>
          if pid = [] then Some (Inr parentTweets)
          else (case getTweet e pid of
                  Inl err \<Rightarrow> Some (Inl err)
                | Inr None \<Rightarrow> Some (Inr parentTweets)
                | Inr (Some parentTweet) \<Rightarrow>
                    walk_parents e parentTweet (parentTweet # parentTweets)))"

declare walk_parents.simps [code]

text \<open>The object literal that builds a \<open>QuoteContext\<close> from the quoted tweet.\<close>

definition quote_of_tweet :: "env \<Rightarrow> tweet \<Rightarrow> exn + quote" where
  "quote_of_tweet e quotedTweet =
     (case toISOString e (t_timeParsed quotedTweet) of
        Inl err \<Rightarrow> Inl err
      | Inr ts \<Rightarrow>
          Inr \<lparr>q_sender = or_default (t_username quotedTweet) ''Unknown User'',
               q_text = or_default (t_text quotedTweet) [],
               q_timestamp = ts,
               q_photos = photo_urls (t_photos quotedTweet)\<rparr>)"

text \<open>
  The quote handling, written twice in the source with the same text: once in the
  callback over the parents and once for the focus tweet.
\<close>

definition resolve_quote :: "env \<Rightarrow> tweet \<Rightarrow> exn + quote option" where
  "resolve_quote e t =
     (case t_quotedStatusId t of
        None \<Rightarrow> Inr None
      | Some qid \<Rightarrow>
          if qid = [] then Inr None
          else (case getTweet e qid of
                  Inl err \<Rightarrow> Inl err
                | Inr None \<Rightarrow> Inr None
                | Inr (Some quotedTweet) \<Rightarrow>
                    (case quote_of_tweet e quotedTweet of
                       Inl err \<Rightarrow> Inl err
                     | Inr q \<Rightarrow> Inr (Some q))))"

text \<open>
  The element built for a tweet: the callback of \<open>parentTweets.map\<close> (\<open>focus = False\<close>)
  and the last element of the returned array (\<open>focus = True\<close>).
\<close>

definition to_message :: "env \<Rightarrow> bool \<Rightarrow> tweet \<Rightarrow> exn + message" where
  "to_message e focus t =
     (case resolve_quote e t of
        Inl err \<Rightarrow> Inl err
      | Inr quoteContext \<Rightarrow>
          (case toISOString e (t_timeParsed t) of
             Inl err \<Rightarrow> Inl err
           | Inr ts \<Rightarrow>
               Inr \<lparr>m_sender = or_default (t_username t) ''Unknown User'',
                    m_tweet_id = t_id t,
                    m_text = or_default (t_text t) [],
                    m_timestamp = ts,
                    m_photos = photo_urls (t_photos t),
                    m_quoteContext = quoteContext,
                    m_isFocusTweet = focus\<rparr>))"

text \<open>The body of the \<open>try\<close> block once the focus tweet is there.\<close>

definition thread_of_focus :: "env \<Rightarrow> tweet \<Rightarrow> (exn + message list) option" where
  "thread_of_focus e focusTweet =
     (case walk_parents e focusTweet [] of
        None \<Rightarrow> None
      | Some (Inl err) \<Rightarrow> Some (Inl err)
      | Some (Inr parentTweets) \<Rightarrow>
          Some (case promise_all (to_message e False) parentTweets of
                  Inl err \<Rightarrow> Inl err
                | Inr conversation \<Rightarrow>
                    (case to_message e True focusTweet of
                       Inl err \<Rightarrow> Inl err
                     | Inr focusMessage \<Rightarrow> Inr (conversation @ [focusMessage]))))"

definition try_thread :: "env \<Rightarrow> string \<Rightarrow> (exn + message list) option" where
  "try_thread e tweetId =
     (case getTweet e tweetId of
        Inl err \<Rightarrow> Some (Inl err)
      | Inr None \<Rightarrow> Some (Inr [])
      | Inr (Some focusTweet) \<Rightarrow> thread_of_focus e focusTweet)"

text \<open>The \<open>catch\<close> block returns the empty array for every exception.\<close>

definition getConversationThread :: "env \<Rightarrow> string \<Rightarrow> message list option" where
  "getConversationThread e tweetId =
     (case try_thread e tweetId of
        None \<Rightarrow> None
      | Some (Inl err) \<Rightarrow> Some []
      | Some (Inr thread) \<Rightarrow> Some thread)"

section \<open>\<open>formatMemory\<close>\<close>

text \<open>
  The display name of a sender: \<open>'(YOU)'\<close> for the agent.  The source writes the test
  twice, for the message's sender and for the quote's sender.
\<close>

definition display_sender :: "env \<Rightarrow> string \<Rightarrow> string" where
  "display_sender e s =
     (if toLowerCase s = ''agent'' \<or> Some s = TWITTER_USERNAME e then ''(YOU)'' else s)"

text \<open>The two emoji of the quote lines, as UTF-8 bytes: U+1F4DD, and U+1F5BC U+FE0F.\<close>

definition memo_emoji :: string where
  "memo_emoji = [CHR 0xF0, CHR 0x9F, CHR 0x93, CHR 0x9D]"

definition frame_emoji :: string where
  "frame_emoji = [CHR 0xF0, CHR 0x9F, CHR 0x96, CHR 0xBC, CHR 0xEF, CHR 0xB8, CHR 0x8F]"

definition formatMessage :: "env \<Rightarrow> message \<Rightarrow> string" where
  "formatMessage e msg =
     (let formattedTimestamp = formatTimestamp e (m_timestamp msg);
          senderDisplay = display_sender e (m_sender msg);
          messageText = ''['' @ formattedTimestamp @ ''] '' @ senderDisplay @ '': '' @ m_text msg
      in case m_quoteContext msg of
           None \<Rightarrow> messageText
         | Some q \<Rightarrow>
             messageText
             @ ''\<newline>    '' @ memo_emoji @ '' Quoting '' @ display_sender e (q_sender q)
             @ '': '' @ q_text q
             @ (if length (q_photos q) > 0
                then ''\<newline>    '' @ frame_emoji @ '' Quote tweet contains ''
                     @ show_nat (length (q_photos q)) @ '' image(s)''
                else []))"

text \<open>
  \<open>const [parentTweet, ...restThreadMessages] = threadMessages\<close> takes the first element
  (or \<open>undefined\<close>) and the rest; \<open>restThreadMessages.pop()\<close> removes and returns the last
  element of the rest (or \<open>undefined\<close>), so \<open>repliesAbove\<close> is the rest without it.
\<close>

definition threadMemory :: "env \<Rightarrow> message list \<Rightarrow> string" where
  "threadMemory e threadMessages =
     (let parentTweet = (case threadMessages of [] \<Rightarrow> None | p # _ \<Rightarrow> Some p);
          restThreadMessages = (case threadMessages of [] \<Rightarrow> [] | _ # r \<Rightarrow> r);
          focusTweet = (if restThreadMessages = [] then None else Some (last restThreadMessages));
          repliesAbove = butlast restThreadMessages;
          parentTweetSection =
            (case parentTweet of
               None \<Rightarrow> []
             | Some p \<Rightarrow> ''Parent Tweet:\<newline>'' @ formatMessage e p @ ''\<newline>'');
          repliesAboveSection =
            (if length repliesAbove > 0
             then ''Replies Above the Tweet You Are Replying To:\<newline>''
                  @ join ''\<newline>'' (map (formatMessage e) repliesAbove) @ ''\<newline>''
             else []);
          focusTweetSection =
            (case focusTweet of
               None \<Rightarrow> []
             | Some f \<Rightarrow> ''The Tweet You Are Replying To:\<newline>'' @ formatMessage e f @ ''\<newline>'')
      in ''Current Tweet Thread:\<newline>\<newline>''
         @ parentTweetSection @ repliesAboveSection @ focusTweetSection)"

definition historyMemory :: "env \<Rightarrow> message list \<Rightarrow> string" where
  "historyMemory e historyMessages =
     (let formattedHistory = join ''\<newline>'' (map (formatMessage e) historyMessages)
      in if formattedHistory \<noteq> []
         then ''Past Conversation History:\<newline>\<newline>'' @ formattedHistory
         else ''No previous conversation history.'')"

definition formatMemory :: "env \<Rightarrow> message list \<Rightarrow> message list \<Rightarrow> string" where
  "formatMemory e threadMessages historyMessages =
     threadMemory e threadMessages @ ''\<newline>\<newline>'' @ historyMemory e historyMessages"

section \<open>\<open>fetchAndFormatTweetMemory\<close>\<close>

text \<open>The \<open>focusTweet\<close> member of the result.\<close>

record focus_info =
  f_sender :: string
  f_text :: string
  f_timestamp :: string
  f_photos :: "string list"
  f_quoteContext :: "quote option"

text \<open>
  The result object.  An element \<open>{ photoUrl, sender }\<close> of \<open>photos\<close> is the pair
  \<open>(photoUrl, sender)\<close>.
\<close>

record memory_result =
  mr_memory :: string
  mr_username :: string
  mr_text :: string
  mr_photos :: "(string \<times> string) list"
  mr_focusTweet :: "focus_info option"

text \<open>A \<open>for\<close> loop that pushes \<open>{ photoUrl, sender }\<close> for every url.\<close>

definition push_photos ::
  "(string \<times> string) list \<Rightarrow> string \<Rightarrow> string list \<Rightarrow> (string \<times> string) list" where
  "push_photos photos sender urls = foldl (\<lambda>acc photoUrl. acc @ [(photoUrl, sender)]) photos urls"

text \<open>The callback of \<open>conversationThread.reduce\<close>.\<close>

definition collect_step :: "(string \<times> string) list \<Rightarrow> message \<Rightarrow> (string \<times> string) list" where
  "collect_step photos message =
     (if m_isFocusTweet message then photos
      else
        (let photos1 =
               (if length (m_photos message) > 0
                then push_photos photos (m_sender message) (m_photos message)
                else photos)
         in case m_quoteContext message of
              None \<Rightarrow> photos1
            | Some q \<Rightarrow>
                if length (q_photos q) > 0
                then push_photos photos1 (q_sender q) (q_photos q)
                else photos1))"

definition allPhotos :: "message list \<Rightarrow> (string \<times> string) list" where
  "allPhotos conversationThread = foldl collect_step [] conversationThread"

definition focus_info_of :: "env \<Rightarrow> message \<Rightarrow> focus_info" where
  "focus_info_of e focusTweet =
     \<lparr>f_sender = m_sender focusTweet,
      f_text = m_text focusTweet,
      f_timestamp = formatTimestamp e (m_timestamp focusTweet),
      f_photos = m_photos focusTweet,
      f_quoteContext = m_quoteContext focusTweet\<rparr>"

text \<open>
  The outer \<open>option\<close> is \<open>None\<close> when the call does not return; \<open>Some None\<close> is the
  result \<open>null\<close>.
\<close>

definition fetchAndFormatTweetMemory :: "env \<Rightarrow> string \<Rightarrow> memory_result option option" where
  "fetchAndFormatTweetMemory e tweetId =
     (case getTweet e tweetId of
        Inl err \<Rightarrow> Some None
      | Inr None \<Rightarrow> Some None
      | Inr (Some tweet) \<Rightarrow>
          if \<not> truthy (t_username tweet) \<or> \<not> truthy (t_text tweet) then Some None
          else
            (case getConversationWithUser e (or_default (t_username tweet) []) of
               Inl err \<Rightarrow> Some None
             | Inr conversationWithUser \<Rightarrow>
                 (case getConversationThread e tweetId of
                    None \<Rightarrow> None
                  | Some conversationThread \<Rightarrow>
                      Some (Some
                        \<lparr>mr_memory = formatMemory e conversationThread conversationWithUser,
                         mr_username = or_default (t_username tweet) [],
                         mr_text = or_default (t_text tweet) [],
                         mr_photos = allPhotos conversationThread,
                         mr_focusTweet =
                           map_option (focus_info_of e) (find m_isFocusTweet conversationThread)\<rparr>))))"

section \<open>\<open>assembleTwitterInterface\<close>\<close>

text \<open>An element \<open>{ sender, ...imageData }\<close> of \<open>imageContents\<close>.\<close>

record image = image_data +
  sender :: string

text \<open>
  The body shared by the three \<open>for\<close> loops over photo urls: a url not yet in
  \<open>processedPhotoUrls\<close> is fetched and, when the fetch succeeds, pushed with its sender
  and recorded.  The state is \<open>(imageContents, processedPhotoUrls)\<close>.
\<close>

fun process_photos ::
  "env \<Rightarrow> (string \<times> string) list \<Rightarrow> image list \<times> string set \<Rightarrow> image list \<times> string set" where
  "process_photos e [] st = st"
| "process_photos e ((photoUrl, sndr) # rest) (imageContents, processedPhotoUrls) =
     (if photoUrl \<notin> processedPhotoUrls then
        (case getImageAsBase64 e photoUrl of
           Some imageData \<Rightarrow>
             process_photos e rest
               (imageContents
                  @ [\<lparr>media_type = media_type imageData, data = data imageData, sender = sndr\<rparr>],
                insert photoUrl processedPhotoUrls)
         | None \<Rightarrow> process_photos e rest (imageContents, processedPhotoUrls))
      else process_photos e rest (imageContents, processedPhotoUrls))"

text \<open>\<open>s || d\<close> on a string.\<close>

definition or_str :: "string \<Rightarrow> string \<Rightarrow> string" where
  "or_str s d = (if s = [] then d else s)"

text \<open>
  The urls of the first loop with the focus tweet's sender, and of the second loop with
  the sender of its quote.
\<close>

definition focus_photos :: "focus_info \<Rightarrow> (string \<times> string) list" where
  "focus_photos f = map (\<lambda>photoUrl. (photoUrl, f_sender f)) (f_photos f)"

definition focus_quote_photos :: "focus_info \<Rightarrow> (string \<times> string) list" where
  "focus_quote_photos f =
     (case f_quoteContext f of
        None \<Rightarrow> []
      | Some q \<Rightarrow> map (\<lambda>photoUrl. (photoUrl, or_str (q_sender q) ''Unknown User'')) (q_photos q))"

text \<open>
  The image processing of \<open>assembleTwitterInterface\<close>.  Each loop is guarded by a test
  that its array is not empty; a loop over an empty array does nothing.
\<close>

definition process_images :: "env \<Rightarrow> memory_result option \<Rightarrow> image list" where
  "process_images e tweetMemoryResult =
     (case tweetMemoryResult of
        None \<Rightarrow> []
      | Some res \<Rightarrow>
          (let st0 = ([], {});
               st2 = (case mr_focusTweet res of
                        None \<Rightarrow> st0
                      | Some f \<Rightarrow>
                          process_photos e (focus_quote_photos f)
                            (process_photos e (focus_photos f) st0))
           in fst (process_photos e (mr_photos res) st2)))"

definition quote_section :: "quote \<Rightarrow> string" where
  "quote_section q =
     ''\<newline>Quote Tweet Context:\<newline>''
     @ ''  Sender: '' @ or_str (q_sender q) ''Unknown User'' @ ''\<newline>''
     @ ''  Time: '' @ q_timestamp q @ ''\<newline>''
     @ ''  Content: '' @ q_text q @ ''\<newline>''
     @ ''  ''
     @ (if length (q_photos q) > 0
        then ''Images: Contains '' @ show_nat (length (q_photos q)) @ '' image(s)''
        else [])"

definition focus_section :: "memory_result option \<Rightarrow> string" where
  "focus_section tweetMemoryResult =
     (case tweetMemoryResult of
        None \<Rightarrow> []
      | Some res \<Rightarrow>
          (case mr_focusTweet res of
             None \<Rightarrow> []
           | Some f \<Rightarrow>
               ''\<newline>## THIS IS THE CURRENT TWEET YOU ARE REPLYING TO. GIVE YOUR FULL FOCUS TO REPLYING TO THIS TWEET.\<newline>''
               @ ''Sender: '' @ or_str (f_sender f) ''Unknown User'' @ ''\<newline>''
               @ ''Time: '' @ f_timestamp f @ ''\<newline>''
               @ ''Content: '' @ f_text f @ ''\<newline>''
               @ (case f_quoteContext f of None \<Rightarrow> [] | Some q \<Rightarrow> quote_section q)))"

text \<open>\<open>tweetMemoryResult?.focusTweet?.sender || 'THE USER'\<close>.\<close>

definition history_owner :: "memory_result option \<Rightarrow> string" where
  "history_owner tweetMemoryResult =
     (case tweetMemoryResult of
        None \<Rightarrow> ''THE USER''
      | Some res \<Rightarrow>
          (case mr_focusTweet res of None \<Rightarrow> ''THE USER'' | Some f \<Rightarrow> or_str (f_sender f) ''THE USER''))"

record context_bundle =
  textContent :: string
  imageContents :: "image list"

definition text_content :: "memory_result option \<Rightarrow> image list \<Rightarrow> string" where
  "text_content tweetMemoryResult imgs =
     (let tweetMemory = (case tweetMemoryResult of None \<Rightarrow> [] | Some res \<Rightarrow> or_str (mr_memory res) [])
      in ''\<newline># TWITTER INTERFACE\<newline>''
         @ ''This section contains your LIVE Twitter interface featuring context you need to reply to the current tweet.\<newline>''
         @ ''\<newline>''
         @ ''## RECENT CHAT HISTORY BETWEEN YOU AND '' @ history_owner tweetMemoryResult @ ''\<newline>''
         @ tweetMemory @ ''\<newline>''
         @ ''\<newline>''
         @ focus_section tweetMemoryResult @ ''\<newline>''
         @ ''\<newline>''
         @ (if length imgs > 0
            then ''\<newline>## IMAGES IN CONVERSATION\<newline>The following messages contain ''
                 @ show_nat (length imgs) @ '' images that provide additional context.\<newline>''
            else [])
         @ ''\<newline>'')"

text \<open>
  The entry point.  Its parameter \<open>recentMainTweetsContent\<close> is not used by the body.
  The result is \<open>None\<close> only when the call does not return.
\<close>

definition assembleTwitterInterface :: "env \<Rightarrow> string \<Rightarrow> string \<Rightarrow> context_bundle option" where
  "assembleTwitterInterface e recentMainTweetsContent tweetId =
     (case fetchAndFormatTweetMemory e tweetId of
        None \<Rightarrow> None
      | Some tweetMemoryResult \<Rightarrow>
          (let imgs = process_images e tweetMemoryResult
           in Some \<lparr>textContent = text_content tweetMemoryResult imgs, imageContents = imgs\<rparr>))"

section \<open>Reply chains on the platform\<close>

text \<open>
  \<open>child_of e c p\<close>: the tweet \<open>c\<close> refers to a parent, and the platform resolves the
  reference to \<open>p\<close>.
\<close>

definition child_of :: "env \<Rightarrow> tweet \<Rightarrow> tweet \<Rightarrow> bool" where
  "child_of e c p =
     (case t_inReplyToStatusId c of
        None \<Rightarrow> False
      | Some pid \<Rightarrow> pid \<noteq> [] \<and> getTweet e pid = Inr (Some p))"

text \<open>A list of tweets, oldest first, each the resolved parent of the next.\<close>

fun linked :: "env \<Rightarrow> tweet list \<Rightarrow> bool" where
  "linked e (a # b # ts) = (child_of e b a \<and> linked e (b # ts))"
| "linked e ts = True"

text \<open>The tweet refers to no parent.\<close>

definition no_parent :: "tweet \<Rightarrow> bool" where
  "no_parent t = (\<not> truthy (t_inReplyToStatusId t))"

text \<open>The tweet refers to a parent that the platform resolves to not-found.\<close>

definition parent_not_found :: "env \<Rightarrow> tweet \<Rightarrow> bool" where
  "parent_not_found e t =
     (case t_inReplyToStatusId t of
        None \<Rightarrow> False
      | Some pid \<Rightarrow> pid \<noteq> [] \<and> getTweet e pid = Inr None)"

text \<open>The tweet carries a valid parsed timestamp.\<close>

definition has_time :: "tweet \<Rightarrow> bool" where
  "has_time t = (case t_timeParsed t of Some (Date ms) \<Rightarrow> True | _ \<Rightarrow> False)"

text \<open>The tweet that the platform resolves the quote reference of \<open>t\<close> to, if any.\<close>

definition quoted_of :: "env \<Rightarrow> tweet \<Rightarrow> tweet option" where
  "quoted_of e t =
     (case t_quotedStatusId t of
        None \<Rightarrow> None
      | Some qid \<Rightarrow>
          if qid = [] then None
          else (case getTweet e qid of Inr (Some q) \<Rightarrow> Some q | _ \<Rightarrow> None))"

text \<open>
  The fetch of the quote reference of \<open>t\<close>, when there is one, does not reject, and a
  quoted tweet it resolves to carries a valid parsed timestamp.
\<close>

definition quote_ok :: "env \<Rightarrow> tweet \<Rightarrow> bool" where
  "quote_ok e t =
     (case t_quotedStatusId t of
        None \<Rightarrow> True
      | Some qid \<Rightarrow>
          qid = [] \<or>
          (case getTweet e qid of
             Inl err \<Rightarrow> False
           | Inr None \<Rightarrow> True
           | Inr (Some q) \<Rightarrow> has_time q))"

definition convertible :: "env \<Rightarrow> tweet \<Rightarrow> bool" where
  "convertible e t = (has_time t \<and> quote_ok e t)"

text \<open>
  The image candidates of a thread node: its own photos under its sender, then the photos
  of its quote context under the quoted sender.
\<close>

definition node_photos :: "message \<Rightarrow> (string \<times> string) list" where
  "node_photos m =
     map (\<lambda>photoUrl. (photoUrl, m_sender m)) (m_photos m)
     @ (case m_quoteContext m of
          None \<Rightarrow> []
        | Some q \<Rightarrow> map (\<lambda>photoUrl. (photoUrl, q_sender q)) (q_photos q))"

text \<open>
  The image candidates of a whole thread in the order in which \<open>assembleTwitterInterface\<close>
  visits them: the photos of the focus node, the photos of the focus node's quote, then
  the candidates of the other nodes, oldest first.
\<close>

definition candidates :: "message list \<Rightarrow> (string \<times> string) list" where
  "candidates thread =
     (case find m_isFocusTweet thread of
        None \<Rightarrow> []
      | Some f \<Rightarrow>
          map (\<lambda>photoUrl. (photoUrl, m_sender f)) (m_photos f)
          @ (case m_quoteContext f of
               None \<Rightarrow> []
             | Some q \<Rightarrow>
                 map (\<lambda>photoUrl. (photoUrl, or_str (q_sender q) ''Unknown User'')) (q_photos q)))
     @ concat (map node_photos (filter (\<lambda>m. \<not> m_isFocusTweet m) thread))"

text \<open>\<open>encodes e (url, sender) img\<close>: \<open>img\<close> is the fetched image of \<open>url\<close>, tagged \<open>sender\<close>.\<close>

definition encodes :: "env \<Rightarrow> string \<times> string \<Rightarrow> image \<Rightarrow> bool" where
  "encodes e p img =
     (case getImageAsBase64 e (fst p) of
        None \<Rightarrow> False
      | Some d \<Rightarrow> img = \<lparr>media_type = media_type d, data = data d, sender = snd p\<rparr>)"

text \<open>
  The quote context that a node \<open>m\<close> built from the tweet \<open>t\<close> must carry: none when the
  quote reference of \<open>t\<close> is not resolved, and otherwise the sender, text, timestamp and
  photos of the quoted tweet itself, whatever that tweet refers to in turn.
\<close>

definition quote_depth_one :: "env \<Rightarrow> tweet \<Rightarrow> message \<Rightarrow> bool" where
  "quote_depth_one e t m =
     (case quoted_of e t of
        None \<Rightarrow> m_quoteContext m = None
      | Some q \<Rightarrow>
          (case t_timeParsed q of
             Some (Date ms) \<Rightarrow>
               m_quoteContext m =
                 Some \<lparr>q_sender = or_default (t_username q) ''Unknown User'',
                       q_text = or_default (t_text q) [],
                       q_timestamp = isoString e ms,
                       q_photos = photo_urls (t_photos q)\<rparr>
           | _ \<Rightarrow> False))"

section \<open>A sample platform\<close>

definition mk_tweet ::
  "string \<Rightarrow> string \<Rightarrow> string \<Rightarrow> date option \<Rightarrow> string option \<Rightarrow> string option \<Rightarrow> string list \<Rightarrow> tweet" where
  "mk_tweet i u x d parent quoted ps =
     \<lparr>t_id = Some i, t_username = Some u, t_text = Some x, t_timeParsed = d,
      t_inReplyToStatusId = parent, t_quotedStatusId = quoted, t_photos = Some ps\<rparr>"

text \<open>
  Tweet 1 is a root that quotes tweet 9, which quotes tweet 1 back; 2 replies to 1 and
  quotes a deleted tweet; 3 replies to 2.  Tweet 4 replies to a deleted tweet and 5
  replies to 4.  Tweet 6 is a root without parsed timestamp and 7 replies to it; tweet 11,
  also without parsed timestamp, replies to a deleted tweet and 12 replies to it.  Tweet 8
  has an empty text.
\<close>

definition tw1 :: tweet where
  "tw1 = mk_tweet ''1'' ''alice'' ''Hello'' (Some (Date 1)) None (Some ''9'') [''u1'']"

definition tw2 :: tweet where
  "tw2 = mk_tweet ''2'' ''bob'' ''Hi'' (Some (Date 2)) (Some ''1'') (Some ''404'') [''u1'', ''u2'']"

definition tw3 :: tweet where
  "tw3 = mk_tweet ''3'' ''frank'' ''Hey'' (Some (Date 3)) (Some ''2'') None []"

definition tw4 :: tweet where
  "tw4 = mk_tweet ''4'' ''dave'' ''Yo'' (Some (Date 4)) (Some ''404'') None []"

definition tw5 :: tweet where
  "tw5 = mk_tweet ''5'' ''erin'' ''Ok'' (Some (Date 5)) (Some ''4'') None []"

definition tw6 :: tweet where
  "tw6 = mk_tweet ''6'' ''gus'' ''Old'' None None None []"

definition tw7 :: tweet where
  "tw7 = mk_tweet ''7'' ''hana'' ''New'' (Some (Date 7)) (Some ''6'') None []"

definition tw8 :: tweet where
  "tw8 = mk_tweet ''8'' ''ivan'' [] (Some (Date 8)) None None [''u5'']"

definition tw9 :: tweet where
  "tw9 = mk_tweet ''9'' ''carol'' ''Look'' (Some (Date 0)) None (Some ''1'') [''u3'', ''u1'']"

definition tw11 :: tweet where
  "tw11 = mk_tweet ''11'' ''judy'' ''Eh'' None (Some ''404'') None []"

definition tw12 :: tweet where
  "tw12 = mk_tweet ''12'' ''kim'' ''Oh'' (Some (Date 6)) (Some ''11'') None []"

definition demo_tweets :: "(string \<times> tweet) list" where
  "demo_tweets =
     [(''1'', tw1), (''2'', tw2), (''3'', tw3), (''4'', tw4), (''5'', tw5), (''6'', tw6),
      (''7'', tw7), (''8'', tw8), (''9'', tw9), (''11'', tw11), (''12'', tw12)]"

text \<open>
  The sample platform: no tweet fetch rejects, there is no history, every image is
  fetched except \<open>u2\<close>, timestamps are printed as decimal numbers and left as they are
  by \<open>formatTimestamp\<close>.
\<close>

definition demo :: env where
  "demo =
     \<lparr>getTweet = (\<lambda>i. Inr (map_of demo_tweets i)),
      getConversationWithUser = (\<lambda>u. Inr []),
      axios_get = (\<lambda>u. if u = ''u2'' then Inl FetchError
                        else Inr \<lparr>r_content_type = None, r_data = u\<rparr>),
      formatTimestamp = (\<lambda>s. s),
      TWITTER_USERNAME = Some ''bot'',
      isoString = (\<lambda>ms. show_nat (nat ms)),
      base64 = (\<lambda>s. s)\<rparr>"

text \<open>
  The sample platform while the fetch of the deleted tweet rejects instead of resolving to
  not-found, and the sample platform while the history query rejects.
\<close>

definition demo_rejecting :: env where
  "demo_rejecting =
     demo\<lparr>getTweet := (\<lambda>i. if i = ''404'' then Inl FetchError else getTweet demo i)\<rparr>"

definition demo_no_history :: env where
  "demo_no_history = demo\<lparr>getConversationWithUser := (\<lambda>u. Inl FetchError)\<rparr>"

section \<open>Properties of the thread walk\<close>

lemmas tweet_defs =
  tw1_def tw2_def tw3_def tw4_def tw5_def tw6_def tw7_def tw8_def tw9_def tw11_def tw12_def
  mk_tweet_def

lemmas demo_defs = demo_def demo_tweets_def

lemmas chain_defs =
  child_of_def no_parent_def parent_not_found_def truthy_def convertible_def has_time_def
  quote_ok_def quoted_of_def

lemma walk_stop:
  "no_parent t \<or> parent_not_found e t \<Longrightarrow> walk_parents e t acc = Some (Inr acc)"
  by (subst walk_parents.simps)
     (auto simp: no_parent_def parent_not_found_def truthy_def split: option.splits)

lemma walk_step:
  "child_of e c p \<Longrightarrow> walk_parents e c acc = walk_parents e p (p # acc)"
  by (subst walk_parents.simps) (auto simp: child_of_def split: option.splits)

lemma linked_snoc:
  "linked e (ts @ [p, c]) = (linked e (ts @ [p]) \<and> child_of e c p)"
  by (induction e ts rule: linked.induct) auto

lemma walk_linked:
  "linked e (anc @ [t]) \<Longrightarrow> walk_parents e t acc = walk_parents e (hd (anc @ [t])) (anc @ acc)"
proof (induction anc arbitrary: t acc rule: rev_induct)
  case Nil
  then show ?case by simp
next
  case (snoc p anc)
  from snoc.prems have l: "linked e (anc @ [p])" and c: "child_of e t p"
    by (simp_all add: linked_snoc)
  have "walk_parents e t acc = walk_parents e p (p # acc)"
    using c by (rule walk_step)
  also have "\<dots> = walk_parents e (hd (anc @ [p])) (anc @ p # acc)"
    using l by (rule snoc.IH)
  finally show ?case by (cases anc) simp_all
qed

lemma promise_all_ok:
  "\<forall>x \<in> set xs. \<exists>y. f x = Inr y \<Longrightarrow>
   \<exists>ys. promise_all f xs = Inr ys \<and> list_all2 (\<lambda>x y. f x = Inr y) xs ys"
  by (induction xs) auto

lemma promise_all_fails:
  "\<exists>x \<in> set xs. \<exists>err. f x = Inl err \<Longrightarrow> \<exists>err. promise_all f xs = Inl err"
  by (induction xs) (fastforce split: sum.splits)+

lemma to_message_ok:
  "convertible e t \<Longrightarrow>
   \<exists>m. to_message e b t = Inr m \<and> m_tweet_id m = t_id t \<and> m_isFocusTweet m = b"
  by (auto simp: convertible_def has_time_def quote_ok_def to_message_def resolve_quote_def
        quote_of_tweet_def toISOString_def split: option.splits date.splits sum.splits)

lemma to_message_no_time:
  "t_timeParsed t = None \<Longrightarrow> \<exists>err. to_message e b t = Inl err"
  by (auto simp: to_message_def toISOString_def split: sum.splits)

lemma to_message_quote_no_time:
  "quoted_of e t = Some q \<Longrightarrow> t_timeParsed q = None \<Longrightarrow> \<exists>err. to_message e b t = Inl err"
  by (auto simp: to_message_def resolve_quote_def quoted_of_def quote_of_tweet_def toISOString_def
        split: sum.splits option.splits if_splits)

lemma walk_chain:
  assumes "linked e (anc @ [focus])"
      and "no_parent (hd (anc @ [focus])) \<or> parent_not_found e (hd (anc @ [focus]))"
  shows "walk_parents e focus [] = Some (Inr anc)"
  using walk_linked [OF assms(1), of "[]"] walk_stop [OF assms(2), of anc] by simp

lemma thread_of_chain:
  assumes f: "getTweet e tweetId = Inr (Some focus)"
      and l: "linked e (anc @ [focus])"
      and s: "no_parent (hd (anc @ [focus])) \<or> parent_not_found e (hd (anc @ [focus]))"
      and c: "\<forall>t \<in> set (anc @ [focus]). convertible e t"
  shows "\<exists>conv fm. getConversationThread e tweetId = Some (conv @ [fm])
           \<and> list_all2 (\<lambda>t m. to_message e False t = Inr m) anc conv
           \<and> to_message e True focus = Inr fm"
proof -
  have w: "walk_parents e focus [] = Some (Inr anc)"
    using l s by (rule walk_chain)
  have "\<forall>t \<in> set anc. \<exists>m. to_message e False t = Inr m"
  proof
    fix t assume "t \<in> set anc"
    then have "convertible e t" using c by simp
    then show "\<exists>m. to_message e False t = Inr m"
      using to_message_ok [of e t False] by blast
  qed
  then obtain conv where conv: "promise_all (to_message e False) anc = Inr conv"
      and rel: "list_all2 (\<lambda>t m. to_message e False t = Inr m) anc conv"
    using promise_all_ok by blast
  obtain fm where fm: "to_message e True focus = Inr fm"
    using c to_message_ok [of e focus True] by auto
  have "getConversationThread e tweetId = Some (conv @ [fm])"
    by (simp add: getConversationThread_def try_thread_def thread_of_focus_def f w conv fm)
  with rel fm show ?thesis by blast
qed

lemma to_message_fields:
  "to_message e b t = Inr m \<Longrightarrow> m_tweet_id m = t_id t \<and> m_isFocusTweet m = b"
  by (auto simp: to_message_def split: sum.splits)

lemma conv_fields:
  "list_all2 (\<lambda>t m. to_message e False t = Inr m) ts ms \<Longrightarrow>
   map m_tweet_id ms = map t_id ts \<and> filter m_isFocusTweet ms = []"
  by (induction ts ms rule: list_all2_induct) (auto dest: to_message_fields)

text \<open>
  C6, as amended.  When the focus tweet resolves, every parent of the chain resolves up to a
  root that refers to no parent, and every tweet of the chain is convertible (it carries a
  valid parsed timestamp, and so does the tweet its quote reference resolves to, whose fetch
  does not reject), the walker returns one node per tweet of the chain, oldest ancestor
  first and the focus last, and the focus node is the only one marked as the focus.
\<close>

theorem getConversationThread_resolvable_chain:
  assumes "getTweet e tweetId = Inr (Some focus)"
      and "linked e (ancestors @ [focus])"
      and "no_parent (hd (ancestors @ [focus]))"
      and "\<forall>t \<in> set (ancestors @ [focus]). convertible e t"
  shows "\<exists>msgs. getConversationThread e tweetId = Some msgs
           \<and> length msgs = length ancestors + 1
           \<and> list_all2 (\<lambda>t m. to_message e False t = Inr m) ancestors (butlast msgs)
           \<and> to_message e True focus = Inr (last msgs)
           \<and> map m_tweet_id msgs = map t_id (ancestors @ [focus])
           \<and> filter m_isFocusTweet msgs = [last msgs]"
proof -
  obtain conv fm where r: "getConversationThread e tweetId = Some (conv @ [fm])"
      and rel: "list_all2 (\<lambda>t m. to_message e False t = Inr m) ancestors conv"
      and fm: "to_message e True focus = Inr fm"
    using thread_of_chain [OF assms(1,2) _ assms(4)] assms(3) by blast
  have "length (conv @ [fm]) = length ancestors + 1"
    using rel by (simp add: list_all2_lengthD)
  moreover have "map m_tweet_id (conv @ [fm]) = map t_id (ancestors @ [focus])"
    using conv_fields [OF rel] to_message_fields [OF fm] by simp
  moreover have "filter m_isFocusTweet (conv @ [fm]) = [last (conv @ [fm])]"
    using conv_fields [OF rel] to_message_fields [OF fm] by simp
  ultimately show ?thesis using r rel fm by auto
qed


theorem getConversationThread_resolvable_chain_witness:
  "getTweet demo ''3'' = Inr (Some tw3)
   \<and> linked demo ([tw1, tw2] @ [tw3])
   \<and> no_parent (hd ([tw1, tw2] @ [tw3]))
   \<and> convertible demo tw1 \<and> convertible demo tw2 \<and> convertible demo tw3
   \<and> (\<exists>msgs. getConversationThread demo ''3'' = Some msgs
          \<and> length msgs = length [tw1, tw2] + 1
          \<and> list_all2 (\<lambda>t m. to_message demo False t = Inr m) [tw1, tw2] (butlast msgs)
          \<and> to_message demo True tw3 = Inr (last msgs)
          \<and> map m_tweet_id msgs = map t_id ([tw1, tw2] @ [tw3])
          \<and> filter m_isFocusTweet msgs = [last msgs])"
proof -
  have h1: "getTweet demo ''3'' = Inr (Some tw3)"
    by (simp add: demo_defs)
  have h2: "linked demo ([tw1, tw2] @ [tw3])"
    by (simp add: chain_defs tweet_defs demo_defs)
  have h3: "no_parent (hd ([tw1, tw2] @ [tw3]))"
    by (simp add: chain_defs tweet_defs)
  have h4: "\<forall>t \<in> set ([tw1, tw2] @ [tw3]). convertible demo t"
    by (simp add: chain_defs tweet_defs demo_defs)
  from getConversationThread_resolvable_chain [OF h1 h2 h3 h4] h1 h2 h3 h4
  show ?thesis by simp
qed

text \<open>
  C6 as stated fails: tweet 7 has the fully resolvable chain of one parent, tweet 6, which
  has no parsed timestamp, and the walker returns no element instead of two.
\<close>

theorem getConversationThread_resolvable_chain_counterexample:
  "getTweet demo ''7'' = Inr (Some tw7) \<and> linked demo [tw6, tw7] \<and> no_parent tw6
   \<and> getConversationThread demo ''7'' = Some []"
  by code_simp

text \<open>
  C5, as amended.  When the focus tweet resolves, its parents resolve up to an ancestor
  whose own parent reference resolves to not-found, and every tweet of the chain is
  convertible, the walker returns the nodes of all resolved ancestors, oldest first,
  followed by the focus node: the sequence stops at the failed fetch and nothing is
  reported to the caller.
\<close>

theorem getConversationThread_truncated_chain:
  assumes "getTweet e tweetId = Inr (Some focus)"
      and "linked e (ancestors @ [focus])"
      and "parent_not_found e (hd (ancestors @ [focus]))"
      and "\<forall>t \<in> set (ancestors @ [focus]). convertible e t"
  shows "\<exists>conv fm. getConversationThread e tweetId = Some (conv @ [fm])
           \<and> list_all2 (\<lambda>t m. to_message e False t = Inr m) ancestors conv
           \<and> to_message e True focus = Inr fm"
  using thread_of_chain [OF assms(1,2) _ assms(4)] assms(3) by blast

theorem getConversationThread_truncated_chain_witness:
  "getTweet demo ''5'' = Inr (Some tw5)
   \<and> linked demo ([tw4] @ [tw5])
   \<and> parent_not_found demo (hd ([tw4] @ [tw5]))
   \<and> convertible demo tw4 \<and> convertible demo tw5
   \<and> (\<exists>conv fm. getConversationThread demo ''5'' = Some (conv @ [fm])
          \<and> list_all2 (\<lambda>t m. to_message demo False t = Inr m) [tw4] conv
          \<and> to_message demo True tw5 = Inr fm)"
proof -
  have h1: "getTweet demo ''5'' = Inr (Some tw5)"
    by (simp add: demo_defs)
  have h2: "linked demo ([tw4] @ [tw5])"
    by (simp add: chain_defs tweet_defs demo_defs)
  have h3: "parent_not_found demo (hd ([tw4] @ [tw5]))"
    by (simp add: chain_defs tweet_defs demo_defs)
  have h4: "\<forall>t \<in> set ([tw4] @ [tw5]). convertible demo t"
    by (simp add: chain_defs tweet_defs demo_defs)
  from getConversationThread_truncated_chain [OF h1 h2 h3 h4] h1 h2 h3 h4
  show ?thesis by simp
qed

text \<open>
  C5 as stated fails: tweet 12 replies to tweet 11, whose parent fetch resolves to
  not-found; tweet 11 has no parsed timestamp, and the walker returns the empty sequence
  instead of the nodes of tweets 11 and 12.
\<close>

theorem getConversationThread_truncated_chain_counterexample:
  "getTweet demo ''12'' = Inr (Some tw12) \<and> linked demo [tw11, tw12]
   \<and> parent_not_found demo tw11 \<and> getConversationThread demo ''12'' = Some []"
  by code_simp

text \<open>
  C9.  When the walk up from the focus tweet ends (at a tweet without parent reference or
  with a parent that resolves to not-found) and a tweet of the chain, or the tweet that
  the quote reference of one of them resolves to, has an undefined parsed timestamp, the
  conversion throws, the exception is caught and the result is the empty sequence: no
  resolved node is kept.
\<close>

theorem getConversationThread_empty_on_undefined_timestamp:
  assumes f: "getTweet e tweetId = Inr (Some focus)"
      and l: "linked e (ancestors @ [focus])"
      and s: "no_parent (hd (ancestors @ [focus])) \<or> parent_not_found e (hd (ancestors @ [focus]))"
      and u: "\<exists>t \<in> set (ancestors @ [focus]).
                t_timeParsed t = None \<or> (\<exists>q. quoted_of e t = Some q \<and> t_timeParsed q = None)"
  shows "getConversationThread e tweetId = Some []"
proof -
  have w: "walk_parents e focus [] = Some (Inr ancestors)"
    using l s by (rule walk_chain)
  from u obtain t where t: "t \<in> set (ancestors @ [focus])"
      and bad: "t_timeParsed t = None \<or> (\<exists>q. quoted_of e t = Some q \<and> t_timeParsed q = None)"
    by blast
  have fails: "\<exists>err. to_message e b t = Inl err" for b
  proof -
    from bad show ?thesis
    proof
      assume "t_timeParsed t = None"
      then show ?thesis by (rule to_message_no_time)
    next
      assume "\<exists>q. quoted_of e t = Some q \<and> t_timeParsed q = None"
      then obtain q where "quoted_of e t = Some q" and "t_timeParsed q = None" by blast
      then show ?thesis by (rule to_message_quote_no_time)
    qed
  qed
  have "thread_of_focus e focus = Some (Inl RangeError) \<or> thread_of_focus e focus = Some (Inl FetchError)"
  proof (cases "t \<in> set ancestors")
    case True
    then have "\<exists>x \<in> set ancestors. \<exists>err. to_message e False x = Inl err"
      using fails [of False] by (rule_tac x = t in bexI)
    then obtain err where "promise_all (to_message e False) ancestors = Inl err"
      using promise_all_fails [of ancestors "to_message e False"] by blast
    then show ?thesis by (cases err) (simp_all add: thread_of_focus_def w)
  next
    case False
    then have "t = focus" using t by simp
    then obtain err where fe: "to_message e True focus = Inl err" using fails by blast
    show ?thesis
    proof (cases "promise_all (to_message e False) ancestors")
      case (Inl err')
      then show ?thesis by (cases err') (simp_all add: thread_of_focus_def w)
    next
      case (Inr conv)
      then show ?thesis using fe by (cases err) (simp_all add: thread_of_focus_def w)
    qed
  qed
  then show ?thesis
    by (auto simp: getConversationThread_def try_thread_def f)
qed


theorem getConversationThread_empty_on_undefined_timestamp_witness:
  "getTweet demo ''7'' = Inr (Some tw7)
   \<and> linked demo ([tw6] @ [tw7])
   \<and> (no_parent (hd ([tw6] @ [tw7])) \<or> parent_not_found demo (hd ([tw6] @ [tw7])))
   \<and> (\<exists>t \<in> set ([tw6] @ [tw7]).
         t_timeParsed t = None \<or> (\<exists>q. quoted_of demo t = Some q \<and> t_timeParsed q = None))
   \<and> getConversationThread demo ''7'' = Some []"
proof -
  have h1: "getTweet demo ''7'' = Inr (Some tw7)"
    by (simp add: demo_defs)
  have h2: "linked demo ([tw6] @ [tw7])"
    by (simp add: chain_defs tweet_defs demo_defs)
  have h3: "no_parent (hd ([tw6] @ [tw7])) \<or> parent_not_found demo (hd ([tw6] @ [tw7]))"
    by (simp add: chain_defs tweet_defs)
  have h4: "\<exists>t \<in> set ([tw6] @ [tw7]).
              t_timeParsed t = None \<or> (\<exists>q. quoted_of demo t = Some q \<and> t_timeParsed q = None)"
    by (simp add: tweet_defs)
  from getConversationThread_empty_on_undefined_timestamp [OF h1 h2 h3 h4] h1 h2 h3 h4
  show ?thesis by blast
qed

lemma to_message_quote_depth_one:
  "convertible e t \<Longrightarrow> to_message e b t = Inr m \<Longrightarrow> quote_depth_one e t m"
  by (auto simp: convertible_def has_time_def quote_ok_def to_message_def resolve_quote_def
        quote_of_tweet_def toISOString_def quote_depth_one_def quoted_of_def
        split: option.splits date.splits sum.splits if_splits)

lemma list_all2_quote_depth_one:
  "\<forall>t \<in> set ts. convertible e t \<Longrightarrow>
   list_all2 (\<lambda>t m. to_message e b t = Inr m) ts ms \<Longrightarrow>
   list_all2 (quote_depth_one e) ts ms"
  by (induction ts arbitrary: ms) (auto simp: list_all2_Cons1 to_message_quote_depth_one)

text \<open>
  C7, as amended.  When the walk up from the focus tweet ends and every tweet of the chain
  is convertible (it carries a valid parsed timestamp, the fetch of its quote reference
  does not reject, and a quoted tweet it resolves to carries a valid parsed timestamp),
  the walker returns one node per tweet of the chain, and the quote context of each node,
  ancestor or focus, is determined by that node's own quote reference alone: it is absent
  when the reference is missing or resolves to not-found (the thread is returned all the
  same), and otherwise it holds the sender, text, timestamp and photos of the quoted tweet
  itself.  A quote context has no quote of its own, and the quoted tweet's quote reference
  is not read.
\<close>

theorem quote_resolution_depth_one:
  assumes "getTweet e tweetId = Inr (Some focus)"
      and "linked e (ancestors @ [focus])"
      and "no_parent (hd (ancestors @ [focus])) \<or> parent_not_found e (hd (ancestors @ [focus]))"
      and "\<forall>t \<in> set (ancestors @ [focus]). convertible e t"
  shows "\<exists>msgs. getConversationThread e tweetId = Some msgs
           \<and> list_all2 (quote_depth_one e) (ancestors @ [focus]) msgs"
proof -
  obtain conv fm where r: "getConversationThread e tweetId = Some (conv @ [fm])"
      and rel: "list_all2 (\<lambda>t m. to_message e False t = Inr m) ancestors conv"
      and fm: "to_message e True focus = Inr fm"
    using thread_of_chain [OF assms] by blast
  have "list_all2 (quote_depth_one e) ancestors conv"
    using assms(4) rel by (intro list_all2_quote_depth_one [of _ _ False]) simp_all
  moreover have "quote_depth_one e focus fm"
    using assms(4) fm by (intro to_message_quote_depth_one [of _ _ True]) simp_all
  ultimately have "list_all2 (quote_depth_one e) (ancestors @ [focus]) (conv @ [fm])"
    by (simp add: list_all2_appendI)
  with r show ?thesis by blast
qed

theorem quote_resolution_depth_one_witness:
  "getTweet demo ''2'' = Inr (Some tw2)
   \<and> linked demo ([tw1] @ [tw2])
   \<and> (no_parent (hd ([tw1] @ [tw2])) \<or> parent_not_found demo (hd ([tw1] @ [tw2])))
   \<and> convertible demo tw1 \<and> convertible demo tw2
   \<and> (\<exists>msgs. getConversationThread demo ''2'' = Some msgs
          \<and> list_all2 (quote_depth_one demo) ([tw1] @ [tw2]) msgs)"
proof -
  have h1: "getTweet demo ''2'' = Inr (Some tw2)"
    by (simp add: demo_defs)
  have h2: "linked demo ([tw1] @ [tw2])"
    by (simp add: chain_defs tweet_defs demo_defs)
  have h3: "no_parent (hd ([tw1] @ [tw2])) \<or> parent_not_found demo (hd ([tw1] @ [tw2]))"
    by (simp add: chain_defs tweet_defs)
  have h4: "\<forall>t \<in> set ([tw1] @ [tw2]). convertible demo t"
    by (simp add: chain_defs tweet_defs demo_defs)
  from quote_resolution_depth_one [OF h1 h2 h3 h4] h1 h2 h3 h4
  show ?thesis by simp
qed

text \<open>
  C7 as stated fails: tweet 2 quotes a tweet whose fetch rejects, so the quote cannot be
  resolved; the rejection is caught by the one \<open>catch\<close> block and the walker returns the
  empty sequence, not the thread with an absent quote context on the node of tweet 2.
\<close>

theorem quote_resolution_depth_one_counterexample:
  "getTweet demo_rejecting ''2'' = Inr (Some tw2)
   \<and> t_quotedStatusId tw2 = Some ''404''
   \<and> getTweet demo_rejecting ''404'' = Inl FetchError
   \<and> getConversationThread demo_rejecting ''2'' = Some []"
  by code_simp

section \<open>Properties of \<open>fetchAndFormatTweetMemory\<close>\<close>

lemma fetchAndFormatTweetMemory_null:
  assumes "getTweet e tweetId = Inr None
           \<or> (\<exists>tweet. getTweet e tweetId = Inr (Some tweet)
                 \<and> (t_username tweet = None \<or> t_username tweet = Some []
                     \<or> t_text tweet = None \<or> t_text tweet = Some []))"
  shows "fetchAndFormatTweetMemory e tweetId = Some None"
  using assms by (auto simp: fetchAndFormatTweetMemory_def truthy_def)

text \<open>
  C10.  \<open>fetchAndFormatTweetMemory\<close> returns \<open>null\<close> when the focus tweet is not found,
  and also when the fetched focus tweet has a missing or empty username or a missing or
  empty text.
\<close>

theorem fetchAndFormatTweetMemory_null_on_unusable_focus:
  assumes "getTweet e tweetId = Inr None
           \<or> (\<exists>tweet. getTweet e tweetId = Inr (Some tweet)
                 \<and> (t_username tweet = None \<or> t_username tweet = Some []
                     \<or> t_text tweet = None \<or> t_text tweet = Some []))"
  shows "fetchAndFormatTweetMemory e tweetId = Some None"
  using assms by (rule fetchAndFormatTweetMemory_null)

theorem fetchAndFormatTweetMemory_null_on_unusable_focus_witness:
  "(getTweet demo ''8'' = Inr None
    \<or> (\<exists>tweet. getTweet demo ''8'' = Inr (Some tweet)
          \<and> (t_username tweet = None \<or> t_username tweet = Some []
              \<or> t_text tweet = None \<or> t_text tweet = Some [])))
   \<and> fetchAndFormatTweetMemory demo ''8'' = Some None"
proof -
  have h: "getTweet demo ''8'' = Inr None
           \<or> (\<exists>tweet. getTweet demo ''8'' = Inr (Some tweet)
                 \<and> (t_username tweet = None \<or> t_username tweet = Some []
                     \<or> t_text tweet = None \<or> t_text tweet = Some []))"
    by (simp add: demo_defs tweet_defs)
  from fetchAndFormatTweetMemory_null_on_unusable_focus [OF h] h
  show ?thesis by blast
qed


section \<open>Properties of \<open>formatMemory\<close>\<close>

lemma threadMemory_two_or_more:
  "threadMemory e (p # mid @ [f]) =
     ''Current Tweet Thread:\<newline>\<newline>''
     @ ''Parent Tweet:\<newline>'' @ formatMessage e p @ ''\<newline>''
     @ (if mid = [] then []
        else ''Replies Above the Tweet You Are Replying To:\<newline>''
             @ join ''\<newline>'' (map (formatMessage e) mid) @ ''\<newline>'')
     @ ''The Tweet You Are Replying To:\<newline>'' @ formatMessage e f @ ''\<newline>''"
  by (simp add: threadMemory_def)

text \<open>
  C2.  A thread of one message, the focus tweet of a conversation without parent, is
  rendered under the heading of the parent tweet, and the transcript has no section
  \<open>The Tweet You Are Replying To\<close>.
\<close>

theorem formatMemory_single_tweet_is_parent_section:
  "formatMemory e [focusTweet] historyMessages =
     ''Current Tweet Thread:\<newline>\<newline>''
     @ ''Parent Tweet:\<newline>'' @ formatMessage e focusTweet @ ''\<newline>''
     @ ''\<newline>\<newline>'' @ historyMemory e historyMessages"
  by (simp add: formatMemory_def threadMemory_def)

text \<open>
  On the sample platform the thread of tweet 4, whose parent is deleted, is the single node
  of tweet 4, and its transcript reads as follows.
\<close>

lemma threadMemory_single_tweet_example:
  "map_option (threadMemory demo) (getConversationThread demo ''4'') =
     Some ''Current Tweet Thread:\<newline>\<newline>Parent Tweet:\<newline>[4] dave: Yo\<newline>''"
  by code_simp

section \<open>Properties of the image collection\<close>

lemma push_photos_eq:
  "push_photos photos s urls = photos @ map (\<lambda>photoUrl. (photoUrl, s)) urls"
  unfolding push_photos_def by (induction urls arbitrary: photos) simp_all

lemma collect_step_eq:
  "collect_step photos m = photos @ (if m_isFocusTweet m then [] else node_photos m)"
  by (simp add: collect_step_def node_photos_def push_photos_eq Let_def split: option.splits)

lemma foldl_collect_step:
  "foldl collect_step acc thread =
     acc @ concat (map node_photos (filter (\<lambda>m. \<not> m_isFocusTweet m) thread))"
  by (induction thread arbitrary: acc) (simp_all add: collect_step_eq)

text \<open>
  C4, as amended.  The collected list is, node by node in thread order and skipping the
  focus node, the node's own photos under its sender followed by the photos of its quote
  context under the quoted sender.  Nothing is removed at this stage.
\<close>

theorem allPhotos_concat_node_photos:
  "allPhotos thread = concat (map node_photos (filter (\<lambda>m. \<not> m_isFocusTweet m) thread))"
  by (simp add: allPhotos_def foldl_collect_step)

text \<open>
  C4 as stated fails: in the thread of tweet 3 the locator \<open>u1\<close> is collected three
  times, and the photos of the quote of tweet 1 come before the own photos of tweet 2.
\<close>

theorem allPhotos_counterexample:
  "map_option allPhotos (getConversationThread demo ''3'') =
     Some [(''u1'', ''alice''), (''u3'', ''carol''), (''u1'', ''carol''),
           (''u1'', ''bob''), (''u2'', ''bob'')]"
  by code_simp

lemma process_photos_append:
  "process_photos e (xs @ ys) st = process_photos e ys (process_photos e xs st)"
  by (induction e xs st rule: process_photos.induct) (simp_all split: option.splits)

lemma process_photos_spec:
  "\<exists>acc imgs. process_photos e cands (imgs0, seen0) = (imgs0 @ imgs, seen0 \<union> fst ` set acc)
      \<and> list_all2 (encodes e) acc imgs
      \<and> distinct (map fst acc)
      \<and> fst ` set acc = {u \<in> fst ` set cands. u \<notin> seen0 \<and> getImageAsBase64 e u \<noteq> None}
      \<and> (\<forall>p \<in> set acc. map_of cands (fst p) = Some (snd p))
      \<and> subseq acc cands"
proof (induction cands arbitrary: imgs0 seen0)
  case Nil
  show ?case by simp
next
  case (Cons c rest)
  obtain u s where c: "c = (u, s)" by (cases c)
  show ?case
  proof (cases "u \<notin> seen0 \<and> getImageAsBase64 e u \<noteq> None")
    case False
    then have step: "process_photos e (c # rest) (imgs0, seen0) = process_photos e rest (imgs0, seen0)"
      by (auto simp: c)
    from Cons.IH [of imgs0 seen0] obtain acc imgs where
      r: "process_photos e rest (imgs0, seen0) = (imgs0 @ imgs, seen0 \<union> fst ` set acc)"
      and enc: "list_all2 (encodes e) acc imgs"
      and dist: "distinct (map fst acc)"
      and dom: "fst ` set acc = {u \<in> fst ` set rest. u \<notin> seen0 \<and> getImageAsBase64 e u \<noteq> None}"
      and first: "\<forall>p \<in> set acc. map_of rest (fst p) = Some (snd p)"
      and sub: "subseq acc rest"
      by blast
    have 1: "process_photos e (c # rest) (imgs0, seen0) = (imgs0 @ imgs, seen0 \<union> fst ` set acc)"
      using step r by simp
    have 4: "fst ` set acc =
               {u \<in> fst ` set (c # rest). u \<notin> seen0 \<and> getImageAsBase64 e u \<noteq> None}"
      using dom False by (auto simp: c)
    have 5: "\<forall>p \<in> set acc. map_of (c # rest) (fst p) = Some (snd p)"
    proof
      fix p assume p: "p \<in> set acc"
      then have "fst p \<in> fst ` set acc" by simp
      then have "fst p \<noteq> u" using dom False by auto
      then show "map_of (c # rest) (fst p) = Some (snd p)" using first p by (simp add: c)
    qed
    have 6: "subseq acc (c # rest)" using sub by (rule list_emb_Cons)
    from 1 enc dist 4 5 6 show ?thesis by blast
  next
    case True
    then obtain d where d: "getImageAsBase64 e u = Some d" and u: "u \<notin> seen0" by auto
    define img where "img = \<lparr>media_type = media_type d, data = data d, sender = s\<rparr>"
    have step: "process_photos e (c # rest) (imgs0, seen0) =
                process_photos e rest (imgs0 @ [img], insert u seen0)"
      using d u by (simp add: c img_def)
    from Cons.IH [of "imgs0 @ [img]" "insert u seen0"] obtain acc imgs where
      r: "process_photos e rest (imgs0 @ [img], insert u seen0) =
            ((imgs0 @ [img]) @ imgs, insert u seen0 \<union> fst ` set acc)"
      and enc: "list_all2 (encodes e) acc imgs"
      and dist: "distinct (map fst acc)"
      and dom: "fst ` set acc =
                  {v \<in> fst ` set rest. v \<notin> insert u seen0 \<and> getImageAsBase64 e v \<noteq> None}"
      and first: "\<forall>p \<in> set acc. map_of rest (fst p) = Some (snd p)"
      and sub: "subseq acc rest"
      by blast
    have notin: "u \<notin> fst ` set acc" using dom by auto
    have 1: "process_photos e (c # rest) (imgs0, seen0) =
               (imgs0 @ (img # imgs), seen0 \<union> fst ` set (c # acc))"
      using step r by (simp add: c)
    have 2: "list_all2 (encodes e) (c # acc) (img # imgs)"
      using enc d by (simp add: encodes_def c img_def)
    have 3: "distinct (map fst (c # acc))"
      using dist notin by (simp add: c)
    have 4: "fst ` set (c # acc) =
               {v \<in> fst ` set (c # rest). v \<notin> seen0 \<and> getImageAsBase64 e v \<noteq> None}"
      using dom u d by (auto simp: c)
    have 5: "\<forall>p \<in> set (c # acc). map_of (c # rest) (fst p) = Some (snd p)"
    proof
      fix p assume p: "p \<in> set (c # acc)"
      show "map_of (c # rest) (fst p) = Some (snd p)"
      proof (cases "p = c")
        case True
        then show ?thesis by (simp add: c)
      next
        case False
        then have pa: "p \<in> set acc" using p by simp
        then have "fst p \<in> fst ` set acc" by simp
        then have "fst p \<noteq> u" using notin by auto
        then show ?thesis using first pa by (simp add: c)
      qed
    qed
    have 6: "subseq (c # acc) (c # rest)" using sub by simp
    from 1 2 3 4 5 6 show ?thesis by blast
  qed
qed

lemma process_images_candidates:
  "process_images e
     (Some \<lparr>mr_memory = mem, mr_username = un, mr_text = tx, mr_photos = allPhotos thread,
            mr_focusTweet = map_option (focus_info_of e) (find m_isFocusTweet thread)\<rparr>) =
   fst (process_photos e (candidates thread) ([], {}))"
  by (cases "find m_isFocusTweet thread")
     (simp_all add: process_images_def candidates_def process_photos_append focus_photos_def
        focus_quote_photos_def focus_info_of_def allPhotos_def foldl_collect_step)

lemma fetchAndFormatTweetMemory_result:
  assumes "getTweet e tweetId = Inr (Some tweet)"
      and "truthy (t_username tweet)" and "truthy (t_text tweet)"
      and "getConversationWithUser e (or_default (t_username tweet) []) = Inr hist"
      and "getConversationThread e tweetId = Some thread"
  shows "fetchAndFormatTweetMemory e tweetId =
           Some (Some \<lparr>mr_memory = formatMemory e thread hist,
                        mr_username = or_default (t_username tweet) [],
                        mr_text = or_default (t_text tweet) [],
                        mr_photos = allPhotos thread,
                        mr_focusTweet = map_option (focus_info_of e) (find m_isFocusTweet thread)\<rparr>)"
  using assms by (simp add: fetchAndFormatTweetMemory_def)

text \<open>
  C3, as amended.  When the focus tweet is usable (its username and text are not empty),
  the history query returns and the thread walk returns \<open>thread\<close>, the image list of the
  bundle holds, in candidate order, exactly one entry for every candidate locator whose
  fetch succeeds and none for a locator whose fetch fails; the entry carries the sender of
  the first candidate with that locator, where the candidates are the photos of the focus
  node, then those of its quote, then those of the other nodes, oldest first.  The fetch
  of a locator is a function of the locator here: it has the same outcome each time it is
  tried during the call (the code tries a locator again at every later occurrence until
  one fetch succeeds).
\<close>

theorem imageContents_first_candidate_wins:
  assumes "getTweet e tweetId = Inr (Some tweet)"
      and "truthy (t_username tweet)" and "truthy (t_text tweet)"
      and "getConversationWithUser e (or_default (t_username tweet) []) = Inr hist"
      and "getConversationThread e tweetId = Some thread"
  shows "\<exists>b acc. assembleTwitterInterface e r tweetId = Some b
           \<and> list_all2 (encodes e) acc (imageContents b)
           \<and> distinct (map fst acc)
           \<and> fst ` set acc = {u \<in> fst ` set (candidates thread). getImageAsBase64 e u \<noteq> None}
           \<and> (\<forall>p \<in> set acc. map_of (candidates thread) (fst p) = Some (snd p))
           \<and> subseq acc (candidates thread)"
proof -
  from process_photos_spec [of e "candidates thread" "[]" "{}"] obtain acc imgs where
    r: "process_photos e (candidates thread) ([], {}) = ([] @ imgs, {} \<union> fst ` set acc)"
    and enc: "list_all2 (encodes e) acc imgs"
    and dist: "distinct (map fst acc)"
    and dom: "fst ` set acc =
                {u \<in> fst ` set (candidates thread). u \<notin> {} \<and> getImageAsBase64 e u \<noteq> None}"
    and first: "\<forall>p \<in> set acc. map_of (candidates thread) (fst p) = Some (snd p)"
    and sub: "subseq acc (candidates thread)"
    by blast
  have "\<exists>tc. assembleTwitterInterface e r tweetId = Some \<lparr>textContent = tc, imageContents = imgs\<rparr>"
    by (simp add: assembleTwitterInterface_def fetchAndFormatTweetMemory_result [OF assms]
          process_images_candidates r Let_def)
  then obtain tc where
    b: "assembleTwitterInterface e r tweetId = Some \<lparr>textContent = tc, imageContents = imgs\<rparr>"
    by blast
  have dom': "fst ` set acc = {u \<in> fst ` set (candidates thread). getImageAsBase64 e u \<noteq> None}"
    using dom by simp
  show ?thesis
    using b enc dist dom' first sub by (intro exI [of _ "\<lparr>textContent = tc, imageContents = imgs\<rparr>"] exI [of _ acc]) simp
qed

theorem imageContents_first_candidate_wins_witness:
  "getTweet demo ''3'' = Inr (Some tw3)
   \<and> truthy (t_username tw3) \<and> truthy (t_text tw3)
   \<and> getConversationWithUser demo (or_default (t_username tw3) []) = Inr []
   \<and> (\<exists>thread. getConversationThread demo ''3'' = Some thread
        \<and> (\<exists>b acc. assembleTwitterInterface demo [] ''3'' = Some b
             \<and> list_all2 (encodes demo) acc (imageContents b)
             \<and> distinct (map fst acc)
             \<and> fst ` set acc = {u \<in> fst ` set (candidates thread). getImageAsBase64 demo u \<noteq> None}
             \<and> (\<forall>p \<in> set acc. map_of (candidates thread) (fst p) = Some (snd p))
             \<and> subseq acc (candidates thread)))"
proof -
  have h1: "getTweet demo ''3'' = Inr (Some tw3)"
    by (simp add: demo_def demo_tweets_def)
  have h2: "truthy (t_username tw3)" and h3: "truthy (t_text tw3)"
    by (simp_all add: truthy_def tw3_def mk_tweet_def)
  have h4: "getConversationWithUser demo (or_default (t_username tw3) []) = Inr []"
    by (simp add: demo_def)
  have "getConversationThread demo ''3'' \<noteq> None"
    by code_simp
  then obtain thread where h5: "getConversationThread demo ''3'' = Some thread" by blast
  from imageContents_first_candidate_wins [OF h1 h2 h3 h4 h5, of "[]"] h1 h2 h3 h4 h5
  show ?thesis by blast
qed

text \<open>
  C3 as stated fails: in the thread of tweet 2 the ancestor (alice) and the focus (bob)
  both refer to \<open>u1\<close>, and its only entry is attributed to bob, the later sender; \<open>u2\<close>,
  whose fetch fails, has no entry; and while the history query rejects, the bundle of the
  same thread has no entry at all.
\<close>

theorem imageContents_counterexample:
  "map_option (map m_sender) (getConversationThread demo ''2'') = Some [''alice'', ''bob'']
   \<and> map_option (map m_photos) (getConversationThread demo ''2'') =
       Some [[''u1''], [''u1'', ''u2'']]
   \<and> map_option imageContents (assembleTwitterInterface demo [] ''2'') =
       Some [\<lparr>media_type = ''image/jpeg'', data = ''u1'', sender = ''bob''\<rparr>,
             \<lparr>media_type = ''image/jpeg'', data = ''u3'', sender = ''carol''\<rparr>]
   \<and> getConversationThread demo_no_history ''2'' = getConversationThread demo ''2''
   \<and> map_option imageContents (assembleTwitterInterface demo_no_history [] ''2'') = Some []"
  by code_simp

section \<open>Properties of \<open>assembleTwitterInterface\<close>\<close>

text \<open>
  C1, as amended.  When the focus tweet is not found, or is found with a missing or empty
  username or text, \<open>fetchAndFormatTweetMemory\<close> returns \<open>null\<close> and
  \<open>assembleTwitterInterface\<close> still returns a bundle: no image, and the text skeleton with
  the placeholder \<open>THE USER\<close>, an empty memory and no focus section.
\<close>

theorem assembleTwitterInterface_skeleton_on_unusable_focus:
  assumes "getTweet e tweetId = Inr None
           \<or> (\<exists>tweet. getTweet e tweetId = Inr (Some tweet)
                 \<and> (t_username tweet = None \<or> t_username tweet = Some []
                     \<or> t_text tweet = None \<or> t_text tweet = Some []))"
  shows "assembleTwitterInterface e r tweetId =
           Some \<lparr>textContent =
                   ''\<newline># TWITTER INTERFACE\<newline>This section contains your LIVE Twitter interface featuring context you need to reply to the current tweet.\<newline>\<newline>## RECENT CHAT HISTORY BETWEEN YOU AND THE USER\<newline>\<newline>\<newline>\<newline>\<newline>\<newline>'',
                 imageContents = []\<rparr>"
  by (simp add: assembleTwitterInterface_def fetchAndFormatTweetMemory_null [OF assms]
        process_images_def text_content_def history_owner_def focus_section_def)

theorem assembleTwitterInterface_skeleton_on_unusable_focus_witness:
  "(getTweet demo ''8'' = Inr None
    \<or> (\<exists>tweet. getTweet demo ''8'' = Inr (Some tweet)
          \<and> (t_username tweet = None \<or> t_username tweet = Some []
              \<or> t_text tweet = None \<or> t_text tweet = Some [])))
   \<and> assembleTwitterInterface demo ''recent'' ''8'' =
           Some \<lparr>textContent =
                   ''\<newline># TWITTER INTERFACE\<newline>This section contains your LIVE Twitter interface featuring context you need to reply to the current tweet.\<newline>\<newline>## RECENT CHAT HISTORY BETWEEN YOU AND THE USER\<newline>\<newline>\<newline>\<newline>\<newline>\<newline>'',
                 imageContents = []\<rparr>"
proof -
  have h: "getTweet demo ''8'' = Inr None
           \<or> (\<exists>tweet. getTweet demo ''8'' = Inr (Some tweet)
                 \<and> (t_username tweet = None \<or> t_username tweet = Some []
                     \<or> t_text tweet = None \<or> t_text tweet = Some []))"
    by (simp add: demo_defs tweet_defs)
  from assembleTwitterInterface_skeleton_on_unusable_focus [OF h, of "''recent''"] h
  show ?thesis by blast
qed

text \<open>
  C1 as stated fails: for an identifier that the platform resolves to not-found the entry
  point returns the skeleton bundle, not a distinguished empty result.
\<close>

theorem assembleTwitterInterface_counterexample:
  "getTweet demo ''404'' = Inr None
   \<and> assembleTwitterInterface demo [] ''404'' =
       Some \<lparr>textContent =
               ''\<newline># TWITTER INTERFACE\<newline>This section contains your LIVE Twitter interface featuring context you need to reply to the current tweet.\<newline>\<newline>## RECENT CHAT HISTORY BETWEEN YOU AND THE USER\<newline>\<newline>\<newline>\<newline>\<newline>\<newline>'',
             imageContents = []\<rparr>"
  by code_simp

end
